theory Spec2Isabelle
  imports Main "HOL-Library.Multiset"
begin

section \<open>Errors\<close>

text \<open>
  The error values the modelled code creates or tests for. \<open>ErrKeyNotFound\<close>,
  \<open>ErrDBClosed\<close>, \<open>ErrEmptyKey\<close> and \<open>ErrInvalidKey\<close> are the store's (badger's) sentinel
  errors and \<open>ExceedsSize\<close> is its error for a key that is too long; \<open>SyntaxError\<close> and
  \<open>UnmarshalTypeError\<close> (with the kind of the JSON value and the name of the field) are
  those of \<open>encoding/json\<close>; \<open>ParseError\<close> is the one of \<open>net/url\<close>;
  \<open>ErrWorkerAlreadyStarted\<close> and \<open>ErrUnknownWorker\<close> are declared by the agent package;
  \<open>Wrapped\<close> is \<open>fmt.Errorf\<close> with the verb \<open>%w\<close>.
\<close>

datatype error =
    ErrKeyNotFound
  | ErrDBClosed
  | ErrEmptyKey
  | ErrInvalidKey
  | ExceedsSize
  | SyntaxError
  | UnmarshalTypeError string string
  | ParseError string
  | ErrWorkerAlreadyStarted
  | ErrUnknownWorker
  | WorkerError string
  | Wrapped string error

section \<open>The sensor registry (internal/sensors/registry.go)\<close>

subsection \<open>Registry values and their JSON form\<close>

record registryValues =
  Registered :: bool
  Disabled :: bool

definition newRegistryValues :: registryValues where
  "newRegistryValues = \<lparr>Registered = False, Disabled = False\<rparr>"

record registryEntry =
  entry_id :: string
  entry_values :: registryValues

definition newRegistryEntry :: "string \<Rightarrow> registryEntry" where
  "newRegistryEntry i = \<lparr>entry_id = i, entry_values = newRegistryValues\<rparr>"

definition IsDisabled :: "registryEntry \<Rightarrow> bool" where
  "IsDisabled e = Disabled (entry_values e)"

definition SetDisabled :: "registryEntry \<Rightarrow> bool \<Rightarrow> registryEntry" where
  "SetDisabled e state = e\<lparr>entry_values := (entry_values e)\<lparr>Disabled := state\<rparr>\<rparr>"

definition IsRegistered :: "registryEntry \<Rightarrow> bool" where
  "IsRegistered e = Registered (entry_values e)"

definition SetRegistered :: "registryEntry \<Rightarrow> bool \<Rightarrow> registryEntry" where
  "SetRegistered e state = e\<lparr>entry_values := (entry_values e)\<lparr>Registered := state\<rparr>\<rparr>"

text \<open>
  \<open>json.Marshal\<close> of a \<open>registryValues\<close>: the two exported fields in declaration order,
  under the names of their tags, with no white space. It cannot fail on this type, so the
  error branch of \<open>Set\<close> that follows it is never taken.
\<close>

definition json_bool :: "bool \<Rightarrow> string" where
  "json_bool b = (if b then ''true'' else ''false'')"

definition json_Marshal :: "registryValues \<Rightarrow> string" where
  "json_Marshal v =
     [CHR ''{'', CHR 0x22] @ ''Registered'' @ [CHR 0x22, CHR '':''] @ json_bool (Registered v) @
     [CHR '','', CHR 0x22] @ ''Disabled'' @ [CHR 0x22, CHR '':''] @ json_bool (Disabled v) @
     [CHR ''}'']"

text \<open>
  \<open>json.Unmarshal\<close> into a \<open>registryValues\<close>. The library first checks that the whole
  document is one well-formed JSON value (a malformed one is a \<open>SyntaxError\<close> and nothing
  is assigned), then decodes it into the struct. The check is modelled in two passes: a
  lexer from bytes to tokens, and a scanner with a stack over the tokens.

  The lexer follows the grammar of the tokens: the four white space characters between
  tokens; strings, in which a control character is refused and a backslash must be
  followed by one of the letters \<open>b f n r t\<close>, a backslash, a slash or a quote, or by
  \<open>u\<close> and four hexadecimal digits;
  numbers (an optional minus, \<open>0\<close> or digits not starting with \<open>0\<close>, an optional fraction,
  an optional exponent), which must be followed by white space, a comma, a closing brace
  or bracket, or the end; and the literals \<open>true\<close>, \<open>false\<close> and \<open>null\<close>. A string token
  keeps the bytes between its quotes as they are written.
\<close>

datatype token =
  LBrace | RBrace | LBracket | RBracket | Colon | Comma | TString string | TNumber | TTrue | TFalse | TNull

definition is_space :: "char \<Rightarrow> bool" where
  "is_space c = (c = CHR '' '' \<or> c = CHR 0x0A \<or> c = CHR 0x0D \<or> c = CHR 0x09)"

definition is_control :: "char \<Rightarrow> bool" where
  "is_control c = (\<not> digit7 c \<and> \<not> digit6 c \<and> \<not> digit5 c)"

definition is_digit :: "char \<Rightarrow> bool" where
  "is_digit c = (c \<in> set ''0123456789'')"

definition is_hex :: "char \<Rightarrow> bool" where
  "is_hex c = (c \<in> set ''0123456789abcdefABCDEF'')"

text \<open>The states of the lexer inside a number, and the states in which a number may end.\<close>

datatype numstate = NMinus | NZero | NInt | NDot | NFrac | NE | NESign | NExp

fun num_next :: "numstate \<Rightarrow> char \<Rightarrow> numstate option" where
  "num_next NMinus c = (if c = CHR ''0'' then Some NZero else if is_digit c then Some NInt else None)"
| "num_next NZero c =
     (if c = CHR ''.'' then Some NDot else if c = CHR ''e'' \<or> c = CHR ''E'' then Some NE else None)"
| "num_next NInt c =
     (if is_digit c then Some NInt else if c = CHR ''.'' then Some NDot
      else if c = CHR ''e'' \<or> c = CHR ''E'' then Some NE else None)"
| "num_next NDot c = (if is_digit c then Some NFrac else None)"
| "num_next NFrac c =
     (if is_digit c then Some NFrac else if c = CHR ''e'' \<or> c = CHR ''E'' then Some NE else None)"
| "num_next NE c =
     (if c = CHR ''+'' \<or> c = CHR ''-'' then Some NESign else if is_digit c then Some NExp else None)"
| "num_next NESign c = (if is_digit c then Some NExp else None)"
| "num_next NExp c = (if is_digit c then Some NExp else None)"

fun num_final :: "numstate \<Rightarrow> bool" where
  "num_final NZero = True"
| "num_final NInt = True"
| "num_final NFrac = True"
| "num_final NExp = True"
| "num_final _ = False"

text \<open>
  The modes of the lexer: between tokens; inside a string (with its bytes so far, last one
  first); after a backslash; inside the four digits of a Unicode escape (with the number
  of digits still to come); inside a number.
\<close>

datatype mode = Top | Str string | Esc string | Uni string nat | Num numstate

function lex :: "mode \<Rightarrow> string \<Rightarrow> token list option" where
  "lex Top [] = Some []"
| "lex (Str acc) [] = None"
| "lex (Esc acc) [] = None"
| "lex (Uni acc n) [] = None"
| "lex (Num ns) [] = (if num_final ns then Some [TNumber] else None)"
| "lex (Str acc) (c # cs) =
     (if c = CHR 0x22 then map_option (Cons (TString (rev acc))) (lex Top cs)
      else if c = CHR 0x5C then lex (Esc (c # acc)) cs
      else if is_control c then None
      else lex (Str (c # acc)) cs)"
| "lex (Esc acc) (c # cs) =
     (if c \<in> set [CHR ''b'', CHR ''f'', CHR ''n'', CHR ''r'', CHR ''t'', CHR 0x5C, CHR ''/'', CHR 0x22]
      then lex (Str (c # acc)) cs
      else if c = CHR ''u'' then lex (Uni (c # acc) 4) cs
      else None)"
| "lex (Uni acc n) (c # cs) =
     (if is_hex c then (if n \<le> 1 then lex (Str (c # acc)) cs else lex (Uni (c # acc) (n - 1)) cs)
      else None)"
| "lex (Num ns) (c # cs) =
     (case num_next ns c of
        Some ns' \<Rightarrow> lex (Num ns') cs
      | None \<Rightarrow>
          if \<not> num_final ns then None
          else if is_space c then map_option (Cons TNumber) (lex Top cs)
          else if c = CHR '','' then map_option (\<lambda>ts. TNumber # Comma # ts) (lex Top cs)
          else if c = CHR ''}'' then map_option (\<lambda>ts. TNumber # RBrace # ts) (lex Top cs)
          else if c = CHR '']'' then map_option (\<lambda>ts. TNumber # RBracket # ts) (lex Top cs)
          else None)"
| "lex Top (c # cs) =
     (if is_space c then lex Top cs
      else if c = CHR ''{'' then map_option (Cons LBrace) (lex Top cs)
      else if c = CHR ''}'' then map_option (Cons RBrace) (lex Top cs)
      else if c = CHR ''['' then map_option (Cons LBracket) (lex Top cs)
      else if c = CHR '']'' then map_option (Cons RBracket) (lex Top cs)
      else if c = CHR '':'' then map_option (Cons Colon) (lex Top cs)
      else if c = CHR '','' then map_option (Cons Comma) (lex Top cs)
      else if c = CHR 0x22 then lex (Str []) cs
      else if c = CHR ''-'' then lex (Num NMinus) cs
      else if c = CHR ''0'' then lex (Num NZero) cs
      else if is_digit c then lex (Num NInt) cs
      else if take 4 (c # cs) = ''true'' then map_option (Cons TTrue) (lex Top (drop 3 cs))
      else if take 5 (c # cs) = ''false'' then map_option (Cons TFalse) (lex Top (drop 4 cs))
      else if take 4 (c # cs) = ''null'' then map_option (Cons TNull) (lex Top (drop 3 cs))
      else None)"
  by pat_completeness auto
termination
  by (relation "measure (\<lambda>(m, cs). length cs)") auto

text \<open>
  The scanner checks the nesting of the tokens, as the library's scanner does with its
  stack of parse states, to the library's depth of 10000. On its way it notes what the
  decoder will need: the kind of the top-level value and, for a top-level object, its
  members in order, each by its key and the kind of its value (the contents of a nested
  array or object are checked and skipped).
\<close>

datatype jkind = KBool bool | KNull | KString | KNumber | KArray | KObject

fun kind_name :: "jkind \<Rightarrow> string" where
  "kind_name (KBool b) = ''bool''"
| "kind_name KNull = ''null''"
| "kind_name KString = ''string''"
| "kind_name KNumber = ''number''"
| "kind_name KArray = ''array''"
| "kind_name KObject = ''object''"

fun scalar_kind :: "token \<Rightarrow> jkind option" where
  "scalar_kind (TString s) = Some KString"
| "scalar_kind TNumber = Some KNumber"
| "scalar_kind TTrue = Some (KBool True)"
| "scalar_kind TFalse = Some (KBool False)"
| "scalar_kind TNull = Some KNull"
| "scalar_kind _ = None"

datatype ctx = InObject | InArray

datatype expect = BeginValue | BeginValueOrEmpty | BeginStringOrEmpty | BeginString | ObjectKey | EndValue

record document =
  top :: "jkind option"
  members :: "(string \<times> jkind) list"
  pending :: string

definition maxNestingDepth :: nat where
  "maxNestingDepth = 10000"

definition note_value :: "ctx list \<Rightarrow> document \<Rightarrow> jkind \<Rightarrow> document" where
  "note_value stack doc k =
     (if stack = [] then doc\<lparr>top := Some k\<rparr>
      else if stack = [InObject] then doc\<lparr>members := members doc @ [(pending doc, k)]\<rparr>
      else doc)"

definition note_key :: "ctx list \<Rightarrow> document \<Rightarrow> string \<Rightarrow> document" where
  "note_key stack doc k = (if stack = [InObject] then doc\<lparr>pending := k\<rparr> else doc)"

fun scan :: "ctx list \<Rightarrow> expect \<Rightarrow> document \<Rightarrow> token list \<Rightarrow> document option" where
  "scan stack e doc [] = (if stack = [] \<and> e = EndValue then Some doc else None)"
| "scan stack e doc (t # ts) =
     (if e = EndValue then
        (case stack of
           [] \<Rightarrow> None
         | InObject # st \<Rightarrow>
             if t = Comma then scan stack BeginString doc ts
             else if t = RBrace then scan st EndValue doc ts
             else None
         | InArray # st \<Rightarrow>
             if t = Comma then scan stack BeginValue doc ts
             else if t = RBracket then scan st EndValue doc ts
             else None)
      else if e = ObjectKey then
        (if t = Colon then scan stack BeginValue doc ts else None)
      else if e = BeginString \<or> e = BeginStringOrEmpty then
        (case t of
           TString k \<Rightarrow> scan stack ObjectKey (note_key stack doc k) ts
         | RBrace \<Rightarrow> if e = BeginStringOrEmpty then scan (tl stack) EndValue doc ts else None
         | _ \<Rightarrow> None)
      else if t = RBracket then
        (if e = BeginValueOrEmpty then scan (tl stack) EndValue doc ts else None)
      else if t = LBrace then
        (if length stack \<ge> maxNestingDepth then None
         else scan (InObject # stack) BeginStringOrEmpty (note_value stack doc KObject) ts)
      else if t = LBracket then
        (if length stack \<ge> maxNestingDepth then None
         else scan (InArray # stack) BeginValueOrEmpty (note_value stack doc KArray) ts)
      else
        (case scalar_kind t of
           Some k \<Rightarrow> scan stack EndValue (note_value stack doc k) ts
         | None \<Rightarrow> None))"

text \<open>
  The decoder. A member of the top-level object belongs to a field when its key, with its
  escapes decoded, equals the name of the field under case folding: the ASCII letters in
  either case, and the two runes outside ASCII that fold to ASCII letters, U+017F (for
  \<open>s\<close>) and U+212A (for \<open>k\<close>), written as UTF-8 or as a Unicode escape. \<open>fold_key\<close> is the
  folded key, or \<open>None\<close> for a key with any other rune outside ASCII, which names no
  field. The members are assigned in order: \<open>true\<close> and \<open>false\<close> set the field, \<open>null\<close>
  leaves it, a value of any other kind is an \<open>UnmarshalTypeError\<close>, of which the first one
  is returned while decoding goes on; members that name no field are skipped. A
  top-level \<open>null\<close> assigns nothing, any other top-level value that is not an object is
  an \<open>UnmarshalTypeError\<close>.
\<close>

definition lower :: "char \<Rightarrow> char" where
  "lower c =
     (case map_of (zip ''ABCDEFGHIJKLMNOPQRSTUVWXYZ'' ''abcdefghijklmnopqrstuvwxyz'') c of
        Some l \<Rightarrow> l
      | None \<Rightarrow> c)"

definition hex_digit :: "char \<Rightarrow> nat" where
  "hex_digit c =
     (case map_of (zip ''0123456789abcdef'' [0 ..< 16]) (lower c) of Some n \<Rightarrow> n | None \<Rightarrow> 0)"

definition hex4 :: "string \<Rightarrow> nat" where
  "hex4 hs = foldl (\<lambda>n c. 16 * n + hex_digit c) 0 hs"

definition fold_rune :: "nat \<Rightarrow> char option" where
  "fold_rune cp =
     (if cp < 128 then Some (lower (char_of cp))
      else if cp = 0x17F then Some CHR ''s''
      else if cp = 0x212A then Some CHR ''k''
      else None)"

definition unescape :: "char \<Rightarrow> char" where
  "unescape e =
     (if e = CHR ''b'' then CHR 0x08 else if e = CHR ''f'' then CHR 0x0C
      else if e = CHR ''n'' then CHR 0x0A else if e = CHR ''r'' then CHR 0x0D
      else if e = CHR ''t'' then CHR 0x09 else e)"

function fold_key :: "string \<Rightarrow> string option" where
  "fold_key [] = Some []"
| "fold_key (c # cs) =
     (if c = CHR 0x5C then
        (case cs of
           [] \<Rightarrow> None
         | e # rest \<Rightarrow>
             if e = CHR ''u''
             then (case fold_rune (hex4 (take 4 rest)) of
                     None \<Rightarrow> None
                   | Some l \<Rightarrow> map_option (Cons l) (fold_key (drop 4 rest)))
             else map_option (Cons (unescape e)) (fold_key rest))
      else if \<not> digit7 c then map_option (Cons (lower c)) (fold_key cs)
      else if take 2 (c # cs) = [CHR 0xC5, CHR 0xBF] then map_option (Cons CHR ''s'') (fold_key (drop 1 cs))
      else if take 3 (c # cs) = [CHR 0xE2, CHR 0x84, CHR 0xAA]
      then map_option (Cons CHR ''k'') (fold_key (drop 2 cs))
      else None)"
  by pat_completeness auto
termination
  by (relation "measure length") auto

definition names_field :: "string \<Rightarrow> string \<Rightarrow> bool" where
  "names_field key field = (fold_key key = Some (map lower field))"

definition first_error :: "error option \<Rightarrow> error \<Rightarrow> error option" where
  "first_error saved e = (case saved of None \<Rightarrow> Some e | Some e0 \<Rightarrow> Some e0)"

definition assign_member ::
    "registryValues \<times> error option \<Rightarrow> string \<times> jkind \<Rightarrow> registryValues \<times> error option" where
  "assign_member acc m =
     (case acc of (st, saved) \<Rightarrow>
      case m of (key, k) \<Rightarrow>
        if names_field key ''Registered'' then
          (case k of
             KBool b \<Rightarrow> (st\<lparr>Registered := b\<rparr>, saved)
           | KNull \<Rightarrow> (st, saved)
           | _ \<Rightarrow> (st, first_error saved (UnmarshalTypeError (kind_name k) ''Registered'')))
        else if names_field key ''Disabled'' then
          (case k of
             KBool b \<Rightarrow> (st\<lparr>Disabled := b\<rparr>, saved)
           | KNull \<Rightarrow> (st, saved)
           | _ \<Rightarrow> (st, first_error saved (UnmarshalTypeError (kind_name k) ''Disabled'')))
        else (st, saved))"

definition json_Unmarshal :: "string \<Rightarrow> registryValues \<Rightarrow> registryValues \<times> error option" where
  "json_Unmarshal val state =
     (case lex Top val of
        None \<Rightarrow> (state, Some SyntaxError)
      | Some ts \<Rightarrow>
          (case scan [] BeginValue \<lparr>top = None, members = [], pending = []\<rparr> ts of
             None \<Rightarrow> (state, Some SyntaxError)
           | Some doc \<Rightarrow>
               (case top doc of
                  Some KObject \<Rightarrow> foldl assign_member (state, None) (members doc)
                | Some KNull \<Rightarrow> (state, None)
                | Some k \<Rightarrow> (state, Some (UnmarshalTypeError (kind_name k) ''''))
                | None \<Rightarrow> (state, Some SyntaxError))))"

subsection \<open>The backing store\<close>

text \<open>
  The registry keeps its entries in a badger key-value store, which the code uses through
  \<open>db.View\<close>, \<open>db.Update\<close>, \<open>txn.Get\<close>, \<open>txn.Set\<close> and \<open>db.Close\<close> only. The store
  is modelled by its committed contents and by whether it has been closed: a transaction
  on a closed store is refused with \<open>ErrDBClosed\<close> before its function runs; \<open>txn.Get\<close>
  refuses the empty key with \<open>ErrEmptyKey\<close>, and a read of a key that was never written
  is \<open>ErrKeyNotFound\<close>; \<open>txn.Set\<close> refuses the empty key with \<open>ErrEmptyKey\<close>, a key that
  starts with the store's own prefix \<^verbatim>\<open>!badger!\<close> with \<open>ErrInvalidKey\<close>, and a key of
  more than 65000 bytes; an update transaction buffers its writes and commits them when
  its function returns no error, and drops them otherwise. Closing a closed store
  changes nothing. (The limits of the store on the size of a value and of a transaction
  are far above the one value of some forty bytes that this code writes in a
  transaction, and are left out.)
\<close>

record DB =
  kv :: "string \<rightharpoonup> string"
  closed :: bool

record Txn =
  pending_writes :: "(string \<times> string) list"

definition new_txn :: Txn where
  "new_txn = \<lparr>pending_writes = []\<rparr>"

definition badgerPrefix :: string where
  "badgerPrefix = ''!badger!''"

definition maxKeySize :: nat where
  "maxKeySize = 65000"

definition txn_Get :: "DB \<Rightarrow> Txn \<Rightarrow> string \<Rightarrow> error + string" where
  "txn_Get d txn key =
     (if key = [] then Inl ErrEmptyKey
      else (case map_of (rev (pending_writes txn)) key of
              Some v \<Rightarrow> Inr v
            | None \<Rightarrow> (case kv d key of None \<Rightarrow> Inl ErrKeyNotFound | Some v \<Rightarrow> Inr v)))"

definition txn_Set :: "Txn \<Rightarrow> string \<Rightarrow> string \<Rightarrow> Txn \<times> error option" where
  "txn_Set txn key v =
     (if key = [] then (txn, Some ErrEmptyKey)
      else if take (length badgerPrefix) key = badgerPrefix then (txn, Some ErrInvalidKey)
      else if length key > maxKeySize then (txn, Some ExceedsSize)
      else (txn\<lparr>pending_writes := pending_writes txn @ [(key, v)]\<rparr>, None))"

text \<open>The keys that \<open>txn.Set\<close> accepts.\<close>

definition writable_key :: "string \<Rightarrow> bool" where
  "writable_key key \<longleftrightarrow>
     key \<noteq> [] \<and> take (length badgerPrefix) key \<noteq> badgerPrefix \<and> length key \<le> maxKeySize"

definition commit :: "DB \<Rightarrow> Txn \<Rightarrow> DB" where
  "commit d txn = d\<lparr>kv := foldl (\<lambda>m (k, v). m(k \<mapsto> v)) (kv d) (pending_writes txn)\<rparr>"

text \<open>
  The function of a transaction may itself use the store (the one of \<open>Set\<close> does), so it
  takes and returns the store as well as its transaction.
\<close>

definition db_View :: "DB \<Rightarrow> (DB \<Rightarrow> Txn \<Rightarrow> 'a \<Rightarrow> 'a \<times> error option) \<Rightarrow> 'a \<Rightarrow> 'a \<times> error option" where
  "db_View d fn st = (if closed d then (st, Some ErrDBClosed) else fn d new_txn st)"

definition db_Update :: "DB \<Rightarrow> (DB \<Rightarrow> Txn \<Rightarrow> DB \<times> Txn \<times> error option) \<Rightarrow> DB \<times> error option" where
  "db_Update d fn =
     (if closed d then (d, Some ErrDBClosed)
      else (case fn d new_txn of
              (d', txn, Some e) \<Rightarrow> (d', Some e)
            | (d', txn, None) \<Rightarrow> (commit d' txn, None)))"

definition db_Close :: "DB \<Rightarrow> DB" where
  "db_Close d = d\<lparr>closed := True\<rparr>"

subsection \<open>Get, Set, Update and Add\<close>

record sensorRegistry =
  uri :: string
  db :: DB

text \<open>
  \<open>Get\<close> returns the pointer to its \<open>state\<close> in every case, with the error beside it: the
  zero values, overwritten by what the decoder has assigned.
\<close>

definition Get :: "sensorRegistry \<Rightarrow> string \<Rightarrow> registryValues \<times> error option" where
  "Get reg i =
     db_View (db reg)
       (\<lambda>d txn state.
          case txn_Get d txn i of
            Inl err \<Rightarrow> (state, Some err)
          | Inr val \<Rightarrow> json_Unmarshal val state)
       \<lparr>Registered = False, Disabled = False\<rparr>"

text \<open>
  \<open>Set\<close> opens an update transaction, marshals the values in it, and writes them in a
  second update transaction of the same store, nested in the first one, which itself
  writes nothing.
\<close>

definition Set :: "sensorRegistry \<Rightarrow> string \<Rightarrow> registryValues \<Rightarrow> sensorRegistry \<times> error option" where
  "Set reg i vs =
     (case db_Update (db reg)
             (\<lambda>d txn.
                let v = json_Marshal vs in
                case db_Update d (\<lambda>d2 txn2. case txn_Set txn2 i v of (txn2', err) \<Rightarrow> (d2, txn2', err)) of
                  (d', err) \<Rightarrow> (d', txn, err))
      of (d', err) \<Rightarrow> (reg\<lparr>db := d'\<rparr>, err))"

definition Update :: "sensorRegistry \<Rightarrow> registryEntry \<Rightarrow> sensorRegistry \<times> error option" where
  "Update reg entry = Set reg (entry_id entry) (entry_values entry)"

text \<open>
  \<open>Add\<close> logs the errors it meets and returns no error: the entry it returns holds the
  stored values when \<open>Get\<close> succeeded, and the values of \<open>newRegistryEntry\<close> otherwise.
\<close>

definition Add :: "sensorRegistry \<Rightarrow> string \<Rightarrow> sensorRegistry \<times> registryEntry" where
  "Add reg i =
     (let entry = newRegistryEntry i in
      case Get reg (entry_id entry) of
        (vs, Some err) \<Rightarrow>
          (if err = ErrKeyNotFound
           then (case Set reg (entry_id entry) (entry_values entry) of (reg', _) \<Rightarrow> (reg', entry))
           else (reg, entry))
      | (vs, None) \<Rightarrow> (reg, entry\<lparr>entry_values := vs\<rparr>))"

definition CloseSensorRegistry :: "sensorRegistry \<Rightarrow> sensorRegistry" where
  "CloseSensorRegistry reg = reg\<lparr>db := db_Close (db reg)\<rparr>"

subsection \<open>Registries used in the examples\<close>

definition fresh_registry :: sensorRegistry where
  "fresh_registry = \<lparr>uri = ''sensorRegistry'', db = \<lparr>kv = Map.empty, closed = False\<rparr>\<rparr>"

definition used_registry :: sensorRegistry where
  "used_registry =
     \<lparr>uri = ''sensorRegistry'',
      db = \<lparr>kv = [''cpu_pct'' \<mapsto> json_Marshal \<lparr>Registered = True, Disabled = True\<rparr>],
            closed = False\<rparr>\<rparr>"

definition closed_registry :: sensorRegistry where
  "closed_registry = CloseSensorRegistry used_registry"

text \<open>A store whose value for \<open>cpu_pct\<close> was cut short: \<^verbatim>\<open>{"Registered":tr\<close>.\<close>

definition corrupt_registry :: sensorRegistry where
  "corrupt_registry =
     \<lparr>uri = ''sensorRegistry'',
      db = \<lparr>kv = [''cpu_pct'' \<mapsto> ''{'' @ [CHR 0x22] @ ''Registered'' @ [CHR 0x22] @ '':tr''],
            closed = False\<rparr>\<rparr>"

subsection \<open>The goroutines of OpenSensorRegistry\<close>

text \<open>
  \<open>OpenSensorRegistry\<close> returns \<open>nil\<close> when the path of the registry or the store cannot
  be opened (the two results come from the storage and badger libraries). Otherwise it
  starts two goroutines and returns the registry:
  \<^item> the first makes a ticker of five minutes, defers \<open>ticker.Stop()\<close>, and ranges over
    the ticker's channel; on each tick it calls \<open>db.RunValueLogGC(0.7)\<close> again and again
    while the call returns no error. A ticker's channel is never closed, so the \<open>range\<close>
    has no exit, and the goroutine does not read the context;
  \<^item> the second waits for \<open>ctx.Done()\<close>, then calls \<open>db.Close()\<close> and returns.

  A run is a sequence of events: the context is cancelled, the scheduler runs the closing
  goroutine, or the ticker fires. \<open>Tick n\<close> is a tick on which \<open>RunValueLogGC\<close> returns no
  error \<open>n\<close> times and then an error, that is \<open>n + 1\<close> calls; \<open>gc_calls\<close> counts the calls.
  The state \<open>Returned\<close> of the first goroutine stands for the end of its loop (where the
  deferred \<open>ticker.Stop()\<close> would run).
\<close>

datatype task = Blocked | Returned

record registry_world =
  rw_ctx_done :: bool
  rw_registry :: sensorRegistry
  rw_gc :: task
  rw_closer :: task
  gc_calls :: nat

datatype registry_event = CtxCancel | RunCloser | Tick nat

definition OpenSensorRegistry :: "error + string \<Rightarrow> error + DB \<Rightarrow> registry_world option" where
  "OpenSensorRegistry child opened =
     (case child of
        Inl err \<Rightarrow> None
      | Inr u \<Rightarrow>
          (case opened of
             Inl err \<Rightarrow> None
           | Inr d \<Rightarrow>
               Some \<lparr>rw_ctx_done = False, rw_registry = \<lparr>uri = u, db = d\<rparr>,
                     rw_gc = Blocked, rw_closer = Blocked, gc_calls = 0\<rparr>))"

fun registry_step :: "registry_world \<Rightarrow> registry_event \<Rightarrow> registry_world" where
  "registry_step w CtxCancel = w\<lparr>rw_ctx_done := True\<rparr>"
| "registry_step w RunCloser =
     (if rw_closer w = Blocked \<and> rw_ctx_done w
      then w\<lparr>rw_registry := (rw_registry w)\<lparr>db := db_Close (db (rw_registry w))\<rparr>,
             rw_closer := Returned\<rparr>
      else w)"
| "registry_step w (Tick n) =
     (if rw_gc w = Blocked then w\<lparr>gc_calls := gc_calls w + n + 1\<rparr> else w)"

definition registry_run :: "registry_world \<Rightarrow> registry_event list \<Rightarrow> registry_world" where
  "registry_run w es = foldl registry_step w es"

text \<open>The world that \<open>OpenSensorRegistry\<close> leaves for an empty, open store.\<close>

definition opened_world :: registry_world where
  "opened_world =
     \<lparr>rw_ctx_done = False, rw_registry = fresh_registry, rw_gc = Blocked, rw_closer = Blocked,
      gc_calls = 0\<rparr>"

text \<open>The invariant of the closing goroutine: it is blocked, or it has closed the store
  after a cancellation.\<close>

definition closer_inv :: "registry_world \<Rightarrow> bool" where
  "closer_inv w \<longleftrightarrow> rw_closer w = Blocked \<or> (closed (db (rw_registry w)) \<and> rw_ctx_done w)"

section \<open>The MQTT controller (package agent, Linux)\<close>

subsection \<open>Entities, subscriptions and configs\<close>

text \<open>
  \<open>mqttapi.Subscription\<close> and \<open>mqttapi.Msg\<close> are types of the MQTT library; the
  controller only passes pointers to them on, so a topic and a payload stand for them.
  A pointer that may be \<open>nil\<close> is an \<open>option\<close>.
\<close>

record Subscription =
  sub_topic :: string

record Msg =
  msg_topic :: string
  msg_message :: string

text \<open>
  The interface \<open>entity\<close>: what the two marshalling methods of an entity return, a
  pointer and an error.
\<close>

record entity =
  MarshalSubscription :: "Subscription option \<times> error option"
  MarshalConfig :: "Msg option \<times> error option"

text \<open>A channel, as far as the controller is concerned: open or closed.\<close>

record chan =
  chan_closed :: bool

datatype panic = CloseOfClosedChannel

definition close_chan :: "chan \<Rightarrow> panic + chan" where
  "close_chan ch = (if chan_closed ch then Inl CloseOfClosedChannel else Inr (ch\<lparr>chan_closed := True\<rparr>))"

text \<open>
  \<open>linuxMQTTController\<close> embeds \<open>mqttWorker\<close>; its logger only receives the warnings,
  which are not modelled.
\<close>

record linuxMQTTController =
  msgs :: chan
  sensors :: "entity list"
  buttons :: "entity list"
  numbers :: "entity list"
  switches :: "entity list"
  controls :: "Subscription option list"
  binarySensors :: "entity list"
  cameras :: "entity list"

definition generateSubscription :: "entity \<Rightarrow> Subscription option" where
  "generateSubscription e =
     (case MarshalSubscription e of
        (sub, Some err) \<Rightarrow> None
      | (sub, None) \<Rightarrow> sub)"

definition generateConfig :: "entity \<Rightarrow> Msg option" where
  "generateConfig e =
     (case MarshalConfig e of
        (cfg, Some err) \<Rightarrow> None
      | (cfg, None) \<Rightarrow> cfg)"

text \<open>
  Each loop of \<open>Subscriptions\<close> and \<open>Configs\<close> appends to the slice what the helper
  returns for the entity, whatever it is.
\<close>

definition Subscriptions :: "linuxMQTTController \<Rightarrow> Subscription option list" where
  "Subscriptions c =
     (let subs = [];
          subs = foldl (\<lambda>subs button. subs @ [generateSubscription button]) subs (buttons c);
          subs = foldl (\<lambda>subs number. subs @ [generateSubscription number]) subs (numbers c);
          subs = foldl (\<lambda>subs sw. subs @ [generateSubscription sw]) subs (switches c);
          subs = subs @ controls c
      in subs)"

definition Configs :: "linuxMQTTController \<Rightarrow> Msg option list" where
  "Configs c =
     (let configs = [];
          configs = foldl (\<lambda>configs e. configs @ [generateConfig e]) configs (sensors c);
          configs = foldl (\<lambda>configs e. configs @ [generateConfig e]) configs (binarySensors c);
          configs = foldl (\<lambda>configs e. configs @ [generateConfig e]) configs (buttons c);
          configs = foldl (\<lambda>configs e. configs @ [generateConfig e]) configs (numbers c);
          configs = foldl (\<lambda>configs e. configs @ [generateConfig e]) configs (switches c);
          configs = foldl (\<lambda>configs e. configs @ [generateConfig e]) configs (cameras c)
      in configs)"

definition Msgs :: "linuxMQTTController \<Rightarrow> chan" where
  "Msgs c = msgs c"

text \<open>
  Two entities for the examples: a button that marshals, and one whose two marshalling
  methods return an error.
\<close>

definition good_button :: entity where
  "good_button =
     \<lparr>MarshalSubscription = (Some \<lparr>sub_topic = ''suspend/set''\<rparr>, None),
      MarshalConfig = (Some \<lparr>msg_topic = ''suspend/config'', msg_message = ''{}''\<rparr>, None)\<rparr>"

definition bad_button :: entity where
  "bad_button =
     \<lparr>MarshalSubscription = (None, Some (WorkerError ''marshal'')),
      MarshalConfig = (None, Some (WorkerError ''marshal''))\<rparr>"

definition two_buttons :: linuxMQTTController where
  "two_buttons =
     \<lparr>msgs = \<lparr>chan_closed = False\<rparr>, sensors = [], buttons = [bad_button, good_button],
      numbers = [], switches = [], controls = [], binarySensors = [], cameras = []\<rparr>"

subsection \<open>The goroutine of newOSController that closes the message channel\<close>

text \<open>
  When there is an MQTT device, \<open>newOSController\<close> makes the channel \<open>msgs\<close>, hands it
  (through \<open>Msgs\<close>) to the controls that send on it, and starts one goroutine whose body
  is \<^verbatim>\<open>defer close(mqttController.msgs); <-ctx.Done()\<close>. The run of the controller
  is a sequence of events: the owner cancels the context (any number of times), and the
  scheduler runs the goroutine, which stays blocked until the context is done, then
  returns, and closes the channel on its way out. \<open>close_calls\<close> counts the executions of
  \<open>close\<close> on the channel.
\<close>

datatype goroutine = Waiting | Finished | Panicked

record mqtt_world =
  ctx_done :: bool
  controller :: linuxMQTTController
  closer :: goroutine
  close_calls :: nat

datatype mqtt_event = Cancel | Schedule

definition new_mqtt_world :: "linuxMQTTController \<Rightarrow> mqtt_world" where
  "new_mqtt_world c =
     \<lparr>ctx_done = False, controller = c\<lparr>msgs := \<lparr>chan_closed = False\<rparr>\<rparr>,
      closer = Waiting, close_calls = 0\<rparr>"

fun mqtt_step :: "mqtt_world \<Rightarrow> mqtt_event \<Rightarrow> mqtt_world" where
  "mqtt_step w Cancel = w\<lparr>ctx_done := True\<rparr>"
| "mqtt_step w Schedule =
     (if closer w = Waiting \<and> ctx_done w
      then (case close_chan (msgs (controller w)) of
              Inl p \<Rightarrow> w\<lparr>closer := Panicked, close_calls := Suc (close_calls w)\<rparr>
            | Inr ch \<Rightarrow> w\<lparr>controller := (controller w)\<lparr>msgs := ch\<rparr>, closer := Finished,
                           close_calls := Suc (close_calls w)\<rparr>)
      else w)"

definition mqtt_run :: "mqtt_world \<Rightarrow> mqtt_event list \<Rightarrow> mqtt_world" where
  "mqtt_run w es = foldl mqtt_step w es"

text \<open>The invariant of the run: the goroutine is blocked and the channel open and never
  closed, or the goroutine has returned after a cancellation and closed the channel once.\<close>

definition mqtt_inv :: "mqtt_world \<Rightarrow> bool" where
  "mqtt_inv w \<longleftrightarrow>
     (closer w = Waiting \<and> \<not> chan_closed (msgs (controller w)) \<and> close_calls w = 0) \<or>
     (closer w = Finished \<and> chan_closed (msgs (controller w)) \<and> close_calls w = 1 \<and> ctx_done w)"

section \<open>The sensor controller (package agent)\<close>

text \<open>
  A sensor snapshot (\<open>sensor.Details\<close>), as far as the controller and the tracker read
  it: the identifier of the sensor and its state.
\<close>

record snapshot =
  snap_id :: string
  snap_value :: int

text \<open>
  A \<open>Worker\<close>, by what its methods return: its id, and the result of \<open>Updates\<close>, an
  error or the channel of its updates. The channel is given by the finite sequence of
  snapshots that the worker sends on it before it closes it.
\<close>

record Worker =
  worker_ID :: string
  Updates :: "error + snapshot list"

text \<open>
  \<open>newOSController\<close> builds the controller as a map from the id of each worker to a
  \<open>sensorWorker\<close>, the worker and the flag \<open>started\<close>, false at first.
\<close>

record sensorWorker =
  object :: Worker
  started :: bool

record deviceController =
  sensorWorkers :: "string \<rightharpoonup> sensorWorker"

text \<open>
  The loop of \<open>newOSController\<close> over the constructors of the workers: a constructor that
  fails is skipped, the others are stored under their ids, not started.
\<close>

definition add_worker :: "deviceController \<Rightarrow> error + Worker \<Rightarrow> deviceController" where
  "add_worker c r =
     (case r of
        Inl err \<Rightarrow> c
      | Inr worker \<Rightarrow>
          c\<lparr>sensorWorkers := (sensorWorkers c)(worker_ID worker \<mapsto> \<lparr>object = worker, started = False\<rparr>)\<rparr>)"

definition newSensorController :: "(error + Worker) list \<Rightarrow> deviceController" where
  "newSensorController allworkers = foldl add_worker \<lparr>sensorWorkers = Map.empty\<rparr> allworkers"

text \<open>
  Modelled from the spec: the method \<open>Start\<close> of \<open>deviceController\<close> is not among the
  sources (only the interface \<open>SensorController\<close>, the two error values and the
  construction of the map are). The specification of \<open>Start(ctx, name)\<close>: it fails with
  \<open>ErrUnknownWorker\<close> if \<open>name\<close> is not among the managed set, with
  \<open>ErrWorkerAlreadyStarted\<close> if the worker is already running; on success it launches
  the worker's update production and records the worker as running. An error of the
  worker's \<open>Updates\<close> is returned to the caller, and the worker is not recorded as
  running.
\<close>

definition Start :: "deviceController \<Rightarrow> string \<Rightarrow> deviceController \<times> (error + snapshot list)" where
  "Start c name =
     (case sensorWorkers c name of
        None \<Rightarrow> (c, Inl ErrUnknownWorker)
      | Some w \<Rightarrow>
          if started w then (c, Inl ErrWorkerAlreadyStarted)
          else (case Updates (object w) of
                  Inl err \<Rightarrow> (c, Inl err)
                | Inr ch \<Rightarrow> (c\<lparr>sensorWorkers := (sensorWorkers c)(name \<mapsto> w\<lparr>started := True\<rparr>)\<rparr>, Inr ch)))"

text \<open>Whether the named worker is recorded as running.\<close>

definition is_running :: "deviceController \<Rightarrow> string \<Rightarrow> bool" where
  "is_running c name = (case sensorWorkers c name of None \<Rightarrow> False | Some w \<Rightarrow> started w)"

text \<open>Two workers for the examples, after the end-to-end scenario of the specification.\<close>

definition battery_worker :: Worker where
  "battery_worker =
     \<lparr>worker_ID = ''battery'', Updates = Inr [\<lparr>snap_id = ''battery_level'', snap_value = 42\<rparr>]\<rparr>"

definition cpu_worker :: Worker where
  "cpu_worker =
     \<lparr>worker_ID = ''cpu'',
      Updates = Inr [\<lparr>snap_id = ''cpu_pct'', snap_value = 10\<rparr>, \<lparr>snap_id = ''cpu_pct'', snap_value = 15\<rparr>]\<rparr>"

definition two_workers :: deviceController where
  "two_workers = newSensorController [Inr battery_worker, Inl (WorkerError ''no boottime value''), Inr cpu_worker]"

section \<open>The tracker: fan-in and processing of the updates\<close>

text \<open>
  \<open>runWorkers\<close> collects the channel that \<open>StartAll\<close> returns for each controller and
  hands them all to \<open>trk.Process(ctx, reg, sensorCh...)\<close>; the tracker itself is not
  among the sources.
\<close>

text \<open>
  Modelled from the spec: the fan-in of the tracker (the merge of the channels inside
  \<open>Process\<close>) is missing from the sources. The specification: for every input stream,
  one reader forwards each snapshot it receives into a single merge point, and exits
  when its stream closes. Which reader moves next is not determined; it is given here by
  a schedule, the list of the indices of the readers in the order in which they move. A
  reader whose stream is exhausted, or an index that names no stream, does nothing. The
  result is the sequence at the merge point, each snapshot with the index of the stream
  it came from, and what is left of the streams when the schedule ends (when the context
  is cancelled, or with every stream closed).
\<close>

fun fan_in :: "nat list \<Rightarrow> 'a list list \<Rightarrow> (nat \<times> 'a) list \<times> 'a list list" where
  "fan_in [] streams = ([], streams)"
| "fan_in (i # sched) streams =
     (if i < length streams
      then (case streams ! i of
              [] \<Rightarrow> fan_in sched streams
            | x # rest \<Rightarrow>
                (case fan_in sched (streams[i := rest]) of (out, left) \<Rightarrow> ((i, x) # out, left)))
      else fan_in sched streams)"

definition drained :: "'a list list \<Rightarrow> bool" where
  "drained streams = list_all (\<lambda>s. s = []) streams"

text \<open>
  Modelled from the spec: the processing of one snapshot at the merge point (the body of
  the loop of \<open>Process\<close>) is missing from the sources. The specification: the registry
  is the map from sensor ids to their two flags. For each snapshot, its id is looked up:
  \<^item> unknown id: an entry is created with both flags false, the snapshot goes to the
    publisher's registration path, and the entry is marked registered if that succeeds;
  \<^item> known and disabled: the update is dropped, nothing is forwarded;
  \<^item> known and not disabled: the snapshot is forwarded as an update.
  A failure of the publisher does not stop the loop. \<open>publish\<close> is the publisher (whether
  a call succeeds); the calls made to it are collected in order.
\<close>

datatype call = Register snapshot | UpdateState snapshot

fun call_snapshot :: "call \<Rightarrow> snapshot" where
  "call_snapshot (Register s) = s"
| "call_snapshot (UpdateState s) = s"

type_synonym registry = "string \<rightharpoonup> registryValues"

definition is_disabled :: "registry \<Rightarrow> string \<Rightarrow> bool" where
  "is_disabled reg i = (case reg i of None \<Rightarrow> False | Some v \<Rightarrow> Disabled v)"

definition process_one :: "(call \<Rightarrow> bool) \<Rightarrow> registry \<times> call list \<Rightarrow> snapshot \<Rightarrow> registry \<times> call list" where
  "process_one publish st s =
     (case st of (reg, calls) \<Rightarrow>
        (case reg (snap_id s) of
           None \<Rightarrow>
             (let reg1 = reg(snap_id s \<mapsto> \<lparr>Registered = False, Disabled = False\<rparr>)
              in if publish (Register s)
                 then (reg1(snap_id s \<mapsto> \<lparr>Registered = True, Disabled = False\<rparr>), calls @ [Register s])
                 else (reg1, calls @ [Register s]))
         | Some v \<Rightarrow>
             if Disabled v then (reg, calls)
             else (reg, calls @ [UpdateState s])))"

text \<open>
  Modelled from the spec: \<open>Process\<close> is missing from the sources. The specification: it
  merges the input streams and handles each snapshot of the merge point in turn, until
  the context is cancelled or all the streams are closed; it returns the calls made to
  the publisher (and the registry as it leaves it).
\<close>

definition Process :: "(call \<Rightarrow> bool) \<Rightarrow> registry \<Rightarrow> nat list \<Rightarrow> snapshot list list \<Rightarrow> registry \<times> call list" where
  "Process publish reg sched streams =
     foldl (process_one publish) (reg, []) (map snd (fst (fan_in sched streams)))"

text \<open>The streams of the end-to-end scenario of the specification.\<close>

definition battery_stream :: "snapshot list" where
  "battery_stream = [\<lparr>snap_id = ''battery_level'', snap_value = 42\<rparr>]"

definition cpu_stream :: "snapshot list" where
  "cpu_stream = [\<lparr>snap_id = ''cpu_pct'', snap_value = 10\<rparr>, \<lparr>snap_id = ''cpu_pct'', snap_value = 15\<rparr>]"

text \<open>A registry in which the sensor \<open>cpu_pct\<close> is registered and disabled.\<close>

definition cpu_disabled :: registry where
  "cpu_disabled = [''cpu_pct'' \<mapsto> \<lparr>Registered = True, Disabled = True\<rparr>]"

text \<open>A publisher whose calls all succeed.\<close>

definition publish_ok :: "call \<Rightarrow> bool" where
  "publish_ok c = True"

section \<open>The generic Linux sensor (package linux)\<close>

text \<open>
  \<open>linuxSensor\<close> with its fields. The field \<open>value\<close> has the type \<open>any\<close>; the classes are
  enumerations of the package \<open>sensor\<close>, kept as their numbers, and so is \<open>sensorType\<close>.
\<close>

datatype any = AnyNil | AnyBool bool | AnyInt int | AnyString string

type_synonym sensorType = int

record linuxSensor =
  "value" :: any
  icon :: string
  units :: string
  source :: string
  sensorType :: sensorType
  isBinary :: bool
  isDiagnostic :: bool
  deviceClass :: int
  stateClass :: int

text \<open>
  \<open>Name\<close> and \<open>ID\<close>. The method \<open>String\<close> of \<open>sensorType\<close> is generated code that is not
  among the sources, and \<open>strcase.ToSnake\<close> belongs to a library: both are parameters,
  \<open>str\<close> and \<open>snake\<close>. Neither method reads anything but its receiver.
\<close>

definition Name :: "(sensorType \<Rightarrow> string) \<Rightarrow> linuxSensor \<Rightarrow> string" where
  "Name str l = str (sensorType l)"

definition ID :: "(string \<Rightarrow> string) \<Rightarrow> (sensorType \<Rightarrow> string) \<Rightarrow> linuxSensor \<Rightarrow> string" where
  "ID snake str l = snake (str (sensorType l))"

definition State :: "linuxSensor \<Rightarrow> any" where
  "State l = value l"

definition Category :: "linuxSensor \<Rightarrow> string" where
  "Category l = (if isDiagnostic l then ''diagnostic'' else '''')"

text \<open>
  For the examples: a table of names in which the type 0 is the screen lock sensor, and
  a snake case that is right on that name.
\<close>

definition example_type_String :: "sensorType \<Rightarrow> string" where
  "example_type_String t = (if t = 0 then ''Screen Lock'' else ''Unknown'')"

definition example_ToSnake :: "string \<Rightarrow> string" where
  "example_ToSnake s =
     map (\<lambda>c. if c = CHR '' '' then CHR ''_'' else if c = CHR ''S'' then CHR ''s''
               else if c = CHR ''L'' then CHR ''l'' else c) s"

text \<open>
  \<open>newScreenlockEvent\<close> (package linux, screen lock): the constant \<open>screenLock\<close> of the
  enumeration is declared outside the sources and is a parameter; the fields that the
  constructor does not set hold their zero values.
\<close>

definition newScreenlockEvent :: "sensorType \<Rightarrow> bool \<Rightarrow> linuxSensor" where
  "newScreenlockEvent screenLock v =
     \<lparr>value = AnyBool v, icon = '''', units = '''', source = ''D-Bus'', sensorType = screenLock,
      isBinary = False, isDiagnostic = False, deviceClass = 0, stateClass = 0\<rparr>"

section \<open>The websocket URL (packages agent and config)\<close>

text \<open>
  The fields of \<open>url.URL\<close> that a URL without user information, opaque part and fragment
  has. The three functions of \<open>net/url\<close> that the code calls are parameters of the
  model, collected in a record: \<open>url.Parse\<close>, and the methods \<open>JoinPath\<close> and \<open>String\<close>.
\<close>

record URL =
  Scheme :: string
  Host :: string
  Path :: string
  RawQuery :: string

record url_lib =
  url_Parse :: "string \<Rightarrow> error + URL"
  url_JoinPath :: "URL \<Rightarrow> string list \<Rightarrow> URL"
  url_String :: "URL \<Rightarrow> string"

definition websocketPath :: string where
  "websocketPath = ''/api/websocket''"

text \<open>
  \<open>generateWebsocketURL\<close> of the package agent (registration). The constant
  \<open>hass.WebsocketPath\<close> is declared outside the sources and is the parameter
  \<open>WebsocketPath\<close>.
\<close>

definition generateWebsocketURL :: "url_lib \<Rightarrow> string \<Rightarrow> string \<Rightarrow> string \<times> error option" where
  "generateWebsocketURL lib WebsocketPath host =
     (case url_Parse lib host of
        Inl err \<Rightarrow> ('''', Some (Wrapped ''unable to generate websocket URL'' err))
      | Inr websocketURL \<Rightarrow>
          (let websocketURL =
                 (if Scheme websocketURL = ''https'' then websocketURL\<lparr>Scheme := ''wss''\<rparr>
                  else if Scheme websocketURL = ''http'' then websocketURL\<lparr>Scheme := ''ws''\<rparr>
                  else if Scheme websocketURL = ''wss'' then websocketURL
                  else websocketURL\<lparr>Scheme := ''ws''\<rparr>);
               websocketURL = url_JoinPath lib websocketURL [WebsocketPath]
           in (url_String lib websocketURL, None)))"

text \<open>
  \<open>generateWebsocketURL\<close> of the package config (internal/agent/config/config.go). It
  returns the empty string, after a warning, when the host does not parse and when the
  scheme is neither \<open>https\<close> nor \<open>http\<close>.
\<close>

definition config_generateWebsocketURL :: "url_lib \<Rightarrow> string \<Rightarrow> string" where
  "config_generateWebsocketURL lib host =
     (case url_Parse lib host of
        Inl err \<Rightarrow> ''''
      | Inr baseURL \<Rightarrow>
          if Scheme baseURL = ''https''
          then url_String lib (url_JoinPath lib (baseURL\<lparr>Scheme := ''wss''\<rparr>) [websocketPath])
          else if Scheme baseURL = ''http''
          then url_String lib (url_JoinPath lib (baseURL\<lparr>Scheme := ''ws''\<rparr>) [websocketPath])
          else '''')"

text \<open>
  The method \<open>generateWebsocketURL\<close> of \<open>agentConfig\<close> (internal/agent/config.go) reads the
  host from the preferences and stores the URL there. It drops the error of \<open>url.Parse\<close>
  and reads the scheme of the pointer returned, which is \<open>nil\<close> when the host does not
  parse. The preferences return the empty string for a key that is not set.
\<close>

datatype fault = NilPointerDereference

definition agentConfig_generateWebsocketURL ::
    "url_lib \<Rightarrow> (string \<Rightarrow> string) \<Rightarrow> fault + (string \<Rightarrow> string)" where
  "agentConfig_generateWebsocketURL lib prefs =
     (let host = prefs ''Host'' in
      case url_Parse lib host of
        Inl err \<Rightarrow> Inl NilPointerDereference
      | Inr u \<Rightarrow>
          (let u = (if Scheme u = ''https'' then u\<lparr>Scheme := ''wss''\<rparr> else u\<lparr>Scheme := ''ws''\<rparr>);
               u = url_JoinPath lib u [websocketPath]
           in Inr (prefs(''WebSocketURL'' := url_String lib u))))"

text \<open>
  An instance of the three functions for the examples. \<open>example_URL_Parse\<close> is the table of
  what \<open>url.Parse\<close> returns on five hosts (the last one has no scheme before its colon
  and does not parse); any other string is reported as not in the table.
  \<open>example_URL_JoinPath\<close> is \<open>JoinPath\<close> for a URL whose path is empty or relative and one
  element that is a clean absolute path: the joined path is relative.
  \<open>example_URL_String\<close> is \<open>String\<close> for a URL with a scheme.
\<close>

definition example_URL_Parse :: "string \<Rightarrow> error + URL" where
  "example_URL_Parse host =
     (if host = ''https://hass.local:8123''
      then Inr \<lparr>Scheme = ''https'', Host = ''hass.local:8123'', Path = '''', RawQuery = ''''\<rparr>
      else if host = ''http://hass.local:8123''
      then Inr \<lparr>Scheme = ''http'', Host = ''hass.local:8123'', Path = '''', RawQuery = ''''\<rparr>
      else if host = ''wss://hass.local:8123''
      then Inr \<lparr>Scheme = ''wss'', Host = ''hass.local:8123'', Path = '''', RawQuery = ''''\<rparr>
      else if host = ''hass.local''
      then Inr \<lparr>Scheme = '''', Host = '''', Path = ''hass.local'', RawQuery = ''''\<rparr>
      else if host = ''://hass.local''
      then Inl (ParseError ''missing protocol scheme'')
      else Inl (ParseError ''not in the table''))"

definition example_URL_JoinPath :: "URL \<Rightarrow> string list \<Rightarrow> URL" where
  "example_URL_JoinPath u elems =
     (if Path u = '''' then u\<lparr>Path := drop 1 (concat elems)\<rparr>
      else u\<lparr>Path := Path u @ concat elems\<rparr>)"

definition example_URL_String :: "URL \<Rightarrow> string" where
  "example_URL_String u =
     Scheme u @ '':'' @
     (if Host u \<noteq> '''' \<or> Path u \<noteq> '''' then ''//'' else '''') @
     Host u @
     (if Path u \<noteq> '''' \<and> take 1 (Path u) \<noteq> ''/'' \<and> Host u \<noteq> '''' then ''/'' else '''') @
     Path u @
     (if RawQuery u \<noteq> '''' then ''?'' @ RawQuery u else '''')"

definition example_lib :: url_lib where
  "example_lib =
     \<lparr>url_Parse = example_URL_Parse, url_JoinPath = example_URL_JoinPath, url_String = example_URL_String\<rparr>"

section \<open>Properties of the registry\<close>

lemma lex_Marshal:
  "lex Top (json_Marshal v) =
     Some [LBrace, TString ''Registered'', Colon, (if Registered v then TTrue else TFalse), Comma,
           TString ''Disabled'', Colon, (if Disabled v then TTrue else TFalse), RBrace]"
  by (simp add: json_Marshal_def json_bool_def is_space_def is_control_def is_digit_def)

lemma names_field_examples:
  "names_field ''Registered'' ''Registered''"
  "\<not> names_field ''Disabled'' ''Registered''"
  "names_field ''Disabled'' ''Disabled''"
  by (simp_all add: names_field_def lower_def)

lemma Unmarshal_Marshal: "json_Unmarshal (json_Marshal v) st = (v, None)"
  by (simp add: json_Unmarshal_def lex_Marshal note_value_def note_key_def maxNestingDepth_def
      assign_member_def names_field_examples)

text \<open>The decoder never returns the store's \<open>ErrKeyNotFound\<close>.\<close>

lemma assign_member_not_KeyNotFound:
  "saved \<noteq> Some ErrKeyNotFound \<Longrightarrow> snd (assign_member (st, saved) m) \<noteq> Some ErrKeyNotFound"
  by (cases m) (auto simp: assign_member_def first_error_def split: jkind.splits option.splits)

lemma foldl_assign_member_not_KeyNotFound:
  "saved \<noteq> Some ErrKeyNotFound \<Longrightarrow>
   snd (foldl assign_member (st, saved) ms) \<noteq> Some ErrKeyNotFound"
proof (induction ms arbitrary: st saved)
  case Nil
  then show ?case by simp
next
  case (Cons m ms)
  obtain st' saved' where a: "assign_member (st, saved) m = (st', saved')"
    by (cases "assign_member (st, saved) m")
  then have "saved' \<noteq> Some ErrKeyNotFound"
    using assign_member_not_KeyNotFound [OF Cons.prems, of st m] by simp
  then show ?case
    using Cons.IH [of saved' st'] by (simp add: a)
qed

lemma Unmarshal_not_KeyNotFound: "snd (json_Unmarshal val st) \<noteq> Some ErrKeyNotFound"
  by (auto simp: json_Unmarshal_def foldl_assign_member_not_KeyNotFound
      split: option.splits jkind.splits)

text \<open>\<open>Set\<close> and \<open>Get\<close>, case by case.\<close>

lemma Set_open:
  "\<not> closed (db reg) \<Longrightarrow> writable_key i \<Longrightarrow>
   Set reg i v = (reg\<lparr>db := (db reg)\<lparr>kv := (kv (db reg))(i \<mapsto> json_Marshal v)\<rparr>\<rparr>, None)"
  by (simp add: Set_def db_Update_def txn_Set_def new_txn_def commit_def writable_key_def)

lemma Set_refused:
  "\<not> writable_key i \<Longrightarrow> fst (Set reg i v) = reg \<and> snd (Set reg i v) \<noteq> None"
  by (auto simp: Set_def db_Update_def txn_Set_def new_txn_def writable_key_def)



lemma Get_closed:
  "closed (db reg) \<Longrightarrow> Get reg i = (\<lparr>Registered = False, Disabled = False\<rparr>, Some ErrDBClosed)"
  by (simp add: Get_def db_View_def)

lemma Get_empty_key:
  "\<not> closed (db reg) \<Longrightarrow> Get reg [] = (\<lparr>Registered = False, Disabled = False\<rparr>, Some ErrEmptyKey)"
  by (simp add: Get_def db_View_def txn_Get_def)

lemma Get_open:
  "\<not> closed (db reg) \<Longrightarrow> i \<noteq> [] \<Longrightarrow>
   Get reg i =
     (case kv (db reg) i of
        None \<Rightarrow> (\<lparr>Registered = False, Disabled = False\<rparr>, Some ErrKeyNotFound)
      | Some val \<Rightarrow> json_Unmarshal val \<lparr>Registered = False, Disabled = False\<rparr>)"
  by (simp add: Get_def db_View_def txn_Get_def new_txn_def split: option.splits)

lemma Get_KeyNotFound_iff:
  "snd (Get reg i) = Some ErrKeyNotFound \<longleftrightarrow> \<not> closed (db reg) \<and> i \<noteq> [] \<and> kv (db reg) i = None"
proof (cases "closed (db reg)")
  case True
  then show ?thesis by (simp add: Get_closed)
next
  case op: False
  show ?thesis
  proof (cases "i = []")
    case True
    with op show ?thesis by (simp add: Get_empty_key)
  next
    case False
    with op show ?thesis
      by (auto simp: Get_open Unmarshal_not_KeyNotFound split: option.splits)
  qed
qed

lemma Get_fresh_registry:
  "Get fresh_registry ''cpu_pct'' = (\<lparr>Registered = False, Disabled = False\<rparr>, Some ErrKeyNotFound)"
  by (simp add: fresh_registry_def Get_open)

lemma Get_used_registry:
  "Get used_registry ''cpu_pct'' = (\<lparr>Registered = True, Disabled = True\<rparr>, None)"
  by (simp add: used_registry_def Get_open Unmarshal_Marshal)

lemma Get_closed_registry:
  "Get closed_registry ''cpu_pct'' = (\<lparr>Registered = False, Disabled = False\<rparr>, Some ErrDBClosed)"
  by (simp add: closed_registry_def CloseSensorRegistry_def db_Close_def Get_closed)

lemma Get_corrupt_registry:
  "Get corrupt_registry ''cpu_pct'' = (\<lparr>Registered = False, Disabled = False\<rparr>, Some SyntaxError)"
  by (simp add: corrupt_registry_def Get_open json_Unmarshal_def is_space_def is_control_def
      is_digit_def)

lemma writable_key_examples:
  "writable_key ''cpu_pct''" "writable_key ''battery_level''"
  "\<not> writable_key []" "\<not> writable_key ''!badger!x''"
  by (simp_all add: writable_key_def badgerPrefix_def maxKeySize_def)




text \<open>
  C2, amended. \<open>Add reg i\<close>, in its two cases. When the id has never been seen (\<open>Get\<close>
  fails with \<open>ErrKeyNotFound\<close>), the entry returned holds the defaults (both flags
  false). It is persisted when the id is a key that the store accepts for writing: a
  \<open>Get\<close> of the id on the registry that \<open>Add\<close> leaves returns the defaults with no error,
  and no other key of the store has changed. When the store refuses the key, the error
  of \<open>Set\<close> is only logged: the same entry is returned and the registry is left as it
  was. When the id has an entry (\<open>Get\<close> succeeds), the entry returned holds exactly the
  stored values and the registry is left as it was: nothing is written.
\<close>

theorem Add_absent_or_present:
  "(snd (Get reg i) = Some ErrKeyNotFound \<longrightarrow>
      snd (Add reg i) = \<lparr>entry_id = i, entry_values = \<lparr>Registered = False, Disabled = False\<rparr>\<rparr> \<and>
      (writable_key i \<longrightarrow>
         Get (fst (Add reg i)) i = (\<lparr>Registered = False, Disabled = False\<rparr>, None) \<and>
         (\<forall>k. k \<noteq> i \<longrightarrow> kv (db (fst (Add reg i))) k = kv (db reg) k)) \<and>
      (\<not> writable_key i \<longrightarrow> fst (Add reg i) = reg)) \<and>
   (snd (Get reg i) = None \<longrightarrow>
      Add reg i = (reg, \<lparr>entry_id = i, entry_values = fst (Get reg i)\<rparr>))"
proof (intro conjI impI)
  assume nf: "snd (Get reg i) = Some ErrKeyNotFound"
  then have op: "\<not> closed (db reg)" and ne: "i \<noteq> []"
    by (simp_all add: Get_KeyNotFound_iff)
  have add: "Add reg i = (fst (Set reg i newRegistryValues), newRegistryEntry i)"
    using nf by (cases "Get reg i") (simp add: Add_def newRegistryEntry_def split: prod.splits)
  show "snd (Add reg i) = \<lparr>entry_id = i, entry_values = \<lparr>Registered = False, Disabled = False\<rparr>\<rparr>"
    by (simp add: add newRegistryEntry_def newRegistryValues_def)
  {
    assume wr: "writable_key i"
    show "Get (fst (Add reg i)) i = (\<lparr>Registered = False, Disabled = False\<rparr>, None)"
      using op ne wr by (simp add: add Set_open Get_open Unmarshal_Marshal newRegistryValues_def)
    show "\<forall>k. k \<noteq> i \<longrightarrow> kv (db (fst (Add reg i))) k = kv (db reg) k"
      using op wr by (simp add: add Set_open)
  }
  {
    assume "\<not> writable_key i"
    then show "fst (Add reg i) = reg"
      by (simp add: add Set_refused)
  }
next
  assume "snd (Get reg i) = None"
  then show "Add reg i = (reg, \<lparr>entry_id = i, entry_values = fst (Get reg i)\<rparr>)"
    by (cases "Get reg i") (simp add: Add_def newRegistryEntry_def)
qed

theorem Add_absent_or_present_witness:
  "snd (Get fresh_registry ''cpu_pct'') = Some ErrKeyNotFound \<and> writable_key ''cpu_pct'' \<and>
   snd (Add fresh_registry ''cpu_pct'') =
     \<lparr>entry_id = ''cpu_pct'', entry_values = \<lparr>Registered = False, Disabled = False\<rparr>\<rparr> \<and>
   Get (fst (Add fresh_registry ''cpu_pct'')) ''cpu_pct'' =
     (\<lparr>Registered = False, Disabled = False\<rparr>, None) \<and>
   snd (Get fresh_registry ''!badger!x'') = Some ErrKeyNotFound \<and> \<not> writable_key ''!badger!x'' \<and>
   fst (Add fresh_registry ''!badger!x'') = fresh_registry \<and>
   snd (Get used_registry ''cpu_pct'') = None \<and>
   Add used_registry ''cpu_pct'' =
     (used_registry, \<lparr>entry_id = ''cpu_pct'', entry_values = \<lparr>Registered = True, Disabled = True\<rparr>\<rparr>)"
  using Add_absent_or_present [of fresh_registry "''cpu_pct''"]
    Add_absent_or_present [of fresh_registry "''!badger!x''"]
    Add_absent_or_present [of used_registry "''cpu_pct''"]
  by (simp add: Get_fresh_registry Get_used_registry writable_key_examples Get_KeyNotFound_iff
      fresh_registry_def)

text \<open>
  C2, as stated for every id, fails at an id that the store does not accept for writing:
  on the open, empty store the id \<^verbatim>\<open>!badger!x\<close> has never been seen, \<open>Add\<close> returns the
  defaults for it and leaves the store empty, and the \<open>Get\<close> that follows fails with
  \<open>ErrKeyNotFound\<close> again: the entry has not been persisted.
\<close>

theorem Add_not_persisted:
  "snd (Get fresh_registry ''!badger!x'') = Some ErrKeyNotFound \<and>
   Add fresh_registry ''!badger!x'' =
     (fresh_registry,
      \<lparr>entry_id = ''!badger!x'', entry_values = \<lparr>Registered = False, Disabled = False\<rparr>\<rparr>) \<and>
   Get (fst (Add fresh_registry ''!badger!x'')) ''!badger!x'' =
     (\<lparr>Registered = False, Disabled = False\<rparr>, Some ErrKeyNotFound) \<and>
   Get (fst (Add fresh_registry ''!badger!x'')) ''!badger!x'' \<noteq>
     (\<lparr>Registered = False, Disabled = False\<rparr>, None)"
  by (simp add: Add_def Get_def Set_def db_View_def db_Update_def txn_Get_def txn_Set_def
      new_txn_def fresh_registry_def newRegistryEntry_def newRegistryValues_def badgerPrefix_def)

text \<open>
  C3. When \<open>Get\<close> fails with any error other than \<open>ErrKeyNotFound\<close> (the store is closed,
  or the stored value cannot be decoded), \<open>Add reg i\<close> returns, for every id \<open>i\<close>, an
  entry with both flags false, and leaves the registry as it was: the sensor is taken as
  not registered and not disabled.
\<close>

theorem Add_fails_open:
  "snd (Get reg i) = Some err \<Longrightarrow> err \<noteq> ErrKeyNotFound \<Longrightarrow>
   Add reg i = (reg, \<lparr>entry_id = i, entry_values = \<lparr>Registered = False, Disabled = False\<rparr>\<rparr>) \<and>
   \<not> IsRegistered (snd (Add reg i)) \<and> \<not> IsDisabled (snd (Add reg i))"
  by (cases "Get reg i")
    (simp add: Add_def newRegistryEntry_def newRegistryValues_def IsRegistered_def IsDisabled_def)

theorem Add_fails_open_witness:
  "snd (Get closed_registry ''cpu_pct'') = Some ErrDBClosed \<and> ErrDBClosed \<noteq> ErrKeyNotFound \<and>
   Add closed_registry ''cpu_pct'' =
     (closed_registry,
      \<lparr>entry_id = ''cpu_pct'', entry_values = \<lparr>Registered = False, Disabled = False\<rparr>\<rparr>) \<and>
   \<not> IsRegistered (snd (Add closed_registry ''cpu_pct'')) \<and>
   \<not> IsDisabled (snd (Add closed_registry ''cpu_pct''))"
  using Add_fails_open [of closed_registry "''cpu_pct''" ErrDBClosed]
  by (simp add: Get_closed_registry IsRegistered_def IsDisabled_def)

text \<open>
  The same on a store that is open and holds a value for the id that does not decode:
  the stored entry is not returned, and it is not overwritten.
\<close>

lemma Add_corrupt_registry:
  "Add corrupt_registry ''cpu_pct'' =
     (corrupt_registry,
      \<lparr>entry_id = ''cpu_pct'', entry_values = \<lparr>Registered = False, Disabled = False\<rparr>\<rparr>)"
  by (simp add: Add_def Get_corrupt_registry newRegistryEntry_def newRegistryValues_def)

section \<open>Properties of the goroutines of the registry\<close>

lemma registry_run_gc: "rw_gc (registry_run w es) = rw_gc w"
  unfolding registry_run_def
proof (induction es arbitrary: w)
  case Nil
  then show ?case by simp
next
  case (Cons e es)
  have "rw_gc (registry_step w e) = rw_gc w"
    by (cases e) simp_all
  with Cons.IH [of "registry_step w e"] show ?case by simp
qed

text \<open>
  Whatever has happened since \<open>OpenSensorRegistry\<close> returned, cancellation included, the
  first goroutine is still in its loop, and the next tick makes it call \<open>RunValueLogGC\<close>
  again.
\<close>

lemma gc_loop_never_ends:
  "OpenSensorRegistry child opened = Some w \<Longrightarrow>
   rw_gc (registry_run w es) = Blocked \<and>
   gc_calls (registry_step (registry_run w es) (Tick n)) = gc_calls (registry_run w es) + n + 1"
  by (auto simp: OpenSensorRegistry_def registry_run_gc split: sum.splits)

lemma closer_inv_step: "closer_inv w \<Longrightarrow> closer_inv (registry_step w e)"
  by (cases e) (auto simp: closer_inv_def db_Close_def)

lemma closer_inv_run: "closer_inv w \<Longrightarrow> closer_inv (registry_run w es)"
  unfolding registry_run_def
  by (induction es arbitrary: w) (simp_all add: closer_inv_step)

text \<open>
  Once the context is cancelled, the store is closed as soon as the closing goroutine has
  run.
\<close>

lemma store_closed_after_cancel:
  assumes "OpenSensorRegistry child opened = Some w"
    and "rw_ctx_done (registry_run w es)"
  shows "closed (db (rw_registry (registry_step (registry_run w es) RunCloser)))"
proof -
  have "closer_inv w"
    using assms(1) by (auto simp: OpenSensorRegistry_def closer_inv_def split: sum.splits)
  then have "closer_inv (registry_run w es)"
    by (rule closer_inv_run)
  with assms(2) show ?thesis
    by (auto simp: closer_inv_def db_Close_def)
qed

text \<open>A second cancellation, and a second run of the closing goroutine, change nothing.\<close>

lemma cancel_twice:
  "registry_step (registry_step w CtxCancel) CtxCancel = registry_step w CtxCancel"
  by simp

lemma closer_twice:
  "registry_step (registry_step w RunCloser) RunCloser = registry_step w RunCloser"
  by (simp add: db_Close_def)

lemma Close_twice: "CloseSensorRegistry (CloseSensorRegistry reg) = CloseSensorRegistry reg"
  by (simp add: CloseSensorRegistry_def db_Close_def)

lemma OpenSensorRegistry_opened_world:
  "OpenSensorRegistry (Inr ''sensorRegistry'') (Inr \<lparr>kv = Map.empty, closed = False\<rparr>) =
     Some opened_world"
  by (simp add: OpenSensorRegistry_def opened_world_def fresh_registry_def)

text \<open>
  C6. The specification has the cancellation stop the periodic garbage collection and
  close the store. On the registry opened over an empty store, after the context is
  cancelled and the closing goroutine has run, the store is closed, but the goroutine of
  the garbage collection is still in its loop: no call of \<open>RunValueLogGC\<close> has been made
  so far, and the tick that follows makes one, on the closed store, and leaves the
  goroutine in its loop.
\<close>

theorem gc_runs_after_cancel:
  "rw_ctx_done (registry_run opened_world [CtxCancel, RunCloser]) \<and>
   closed (db (rw_registry (registry_run opened_world [CtxCancel, RunCloser]))) \<and>
   rw_gc (registry_run opened_world [CtxCancel, RunCloser]) = Blocked \<and>
   gc_calls (registry_run opened_world [CtxCancel, RunCloser]) = 0 \<and>
   gc_calls (registry_run opened_world [CtxCancel, RunCloser, Tick 0]) = 1 \<and>
   rw_gc (registry_run opened_world [CtxCancel, RunCloser, Tick 0]) = Blocked"
  by (simp add: registry_run_def opened_world_def db_Close_def)

section \<open>Properties of the MQTT controller\<close>

lemma foldl_append_map: "foldl (\<lambda>acc x. acc @ [f x]) acc xs = acc @ map f xs"
  by (induction xs arbitrary: acc) simp_all

text \<open>
  The lists returned hold one element for each entity, in the order of the loops: what
  the helper returned for it, which is \<open>nil\<close> for an entity whose marshalling failed.
\<close>

lemma Subscriptions_eq:
  "Subscriptions c =
     map generateSubscription (buttons c) @ map generateSubscription (numbers c) @
     map generateSubscription (switches c) @ controls c"
  by (simp add: Subscriptions_def foldl_append_map)

lemma Configs_eq:
  "Configs c =
     map generateConfig (sensors c) @ map generateConfig (binarySensors c) @
     map generateConfig (buttons c) @ map generateConfig (numbers c) @
     map generateConfig (switches c) @ map generateConfig (cameras c)"
  by (simp add: Configs_def foldl_append_map)

lemma length_Subscriptions:
  "length (Subscriptions c) =
     length (buttons c) + length (numbers c) + length (switches c) + length (controls c)"
  by (simp add: Subscriptions_eq)

lemma length_Configs:
  "length (Configs c) =
     length (sensors c) + length (binarySensors c) + length (buttons c) + length (numbers c) +
     length (switches c) + length (cameras c)"
  by (simp add: Configs_eq)

lemma generateSubscription_failed:
  "snd (MarshalSubscription e) = Some err \<Longrightarrow> generateSubscription e = None"
  by (cases "MarshalSubscription e") (simp add: generateSubscription_def)

lemma generateConfig_failed:
  "snd (MarshalConfig e) = Some err \<Longrightarrow> generateConfig e = None"
  by (cases "MarshalConfig e") (simp add: generateConfig_def)

text \<open>
  C4. The specification has the controller skip an entity whose marshalling returns an
  error, so that the lists hold the results of the other entities only. The code does
  not: for the controller with two buttons, the first of which fails to marshal,
  \<open>Subscriptions\<close> and \<open>Configs\<close> return lists of two elements, a \<open>nil\<close> for the failed
  button and then the result of the other one.
\<close>

theorem Subscriptions_Configs_keep_failed_entity:
  "Subscriptions two_buttons = [None, Some \<lparr>sub_topic = ''suspend/set''\<rparr>] \<and>
   Configs two_buttons = [None, Some \<lparr>msg_topic = ''suspend/config'', msg_message = ''{}''\<rparr>]"
  by (simp add: Subscriptions_def Configs_def two_buttons_def generateSubscription_def
      generateConfig_def good_button_def bad_button_def)

lemma mqtt_inv_step: "mqtt_inv w \<Longrightarrow> mqtt_inv (mqtt_step w e)"
  by (cases e) (auto simp: mqtt_inv_def close_chan_def)

lemma mqtt_inv_run: "mqtt_inv w \<Longrightarrow> mqtt_inv (mqtt_run w es)"
  unfolding mqtt_run_def
  by (induction es arbitrary: w) (simp_all add: mqtt_inv_step)

lemma mqtt_inv_new: "mqtt_inv (new_mqtt_world c)"
  by (simp add: mqtt_inv_def new_mqtt_world_def)

text \<open>
  C5. After any sequence of cancellations and runs of the goroutine, starting from the
  controller as \<open>newOSController\<close> makes it: \<open>close\<close> has been executed on the channel of
  \<open>Msgs\<close> at most once and has not panicked; the channel is closed exactly when \<open>close\<close>
  has been executed once; a closed channel means that the context has been cancelled;
  and once the context is cancelled, the channel is closed as soon as the goroutine has
  run.
\<close>

theorem msgs_closed_once:
  "close_calls (mqtt_run (new_mqtt_world c) es) \<le> 1 \<and>
   closer (mqtt_run (new_mqtt_world c) es) \<noteq> Panicked \<and>
   (chan_closed (Msgs (controller (mqtt_run (new_mqtt_world c) es))) \<longleftrightarrow>
      close_calls (mqtt_run (new_mqtt_world c) es) = 1) \<and>
   (chan_closed (Msgs (controller (mqtt_run (new_mqtt_world c) es))) \<longrightarrow>
      ctx_done (mqtt_run (new_mqtt_world c) es)) \<and>
   (ctx_done (mqtt_run (new_mqtt_world c) es) \<longrightarrow>
      chan_closed (Msgs (controller (mqtt_step (mqtt_run (new_mqtt_world c) es) Schedule))))"
proof -
  have "mqtt_inv (mqtt_run (new_mqtt_world c) es)"
    by (simp add: mqtt_inv_run mqtt_inv_new)
  then show ?thesis
    by (auto simp: mqtt_inv_def Msgs_def close_chan_def)
qed

theorem msgs_closed_once_witness:
  "ctx_done (mqtt_run (new_mqtt_world two_buttons) [Schedule, Cancel, Cancel, Schedule, Schedule]) \<and>
   chan_closed (Msgs (controller
     (mqtt_run (new_mqtt_world two_buttons) [Schedule, Cancel, Cancel, Schedule, Schedule]))) \<and>
   close_calls (mqtt_run (new_mqtt_world two_buttons) [Schedule, Cancel, Cancel, Schedule, Schedule]) = 1 \<and>
   closer (mqtt_run (new_mqtt_world two_buttons) [Schedule, Cancel, Cancel, Schedule, Schedule]) = Finished \<and>
   \<not> chan_closed (Msgs (controller (mqtt_run (new_mqtt_world two_buttons) [Schedule]))) \<and>
   chan_closed (Msgs (controller
     (mqtt_step (mqtt_run (new_mqtt_world two_buttons) [Schedule, Cancel]) Schedule)))"
  using msgs_closed_once [of two_buttons "[Schedule, Cancel, Cancel, Schedule, Schedule]"]
    msgs_closed_once [of two_buttons "[Schedule, Cancel]"]
  by (simp add: mqtt_run_def new_mqtt_world_def two_buttons_def Msgs_def close_chan_def)

section \<open>Properties of the sensor controller\<close>

lemma two_workers_eq:
  "sensorWorkers two_workers =
     [''battery'' \<mapsto> \<lparr>object = battery_worker, started = False\<rparr>,
      ''cpu'' \<mapsto> \<lparr>object = cpu_worker, started = False\<rparr>]"
  by (simp add: two_workers_def newSensorController_def add_worker_def battery_worker_def
      cpu_worker_def)

text \<open>
  C7. \<open>Start c name\<close> returns \<open>ErrUnknownWorker\<close> to its caller when \<open>name\<close> is not among
  the workers of the controller, and \<open>ErrWorkerAlreadyStarted\<close> when the named worker is
  running, and leaves the controller as it was in both cases; when it returns a channel,
  the named worker is recorded as running and no other worker has changed.
\<close>

theorem Start_errors:
  "(sensorWorkers c name = None \<longrightarrow> Start c name = (c, Inl ErrUnknownWorker)) \<and>
   (is_running c name \<longrightarrow> Start c name = (c, Inl ErrWorkerAlreadyStarted)) \<and>
   (\<forall>ch. snd (Start c name) = Inr ch \<longrightarrow>
      is_running (fst (Start c name)) name \<and>
      (\<forall>other. other \<noteq> name \<longrightarrow> sensorWorkers (fst (Start c name)) other = sensorWorkers c other))"
  by (auto simp: Start_def is_running_def split: option.splits sum.splits)

theorem Start_errors_witness:
  "sensorWorkers two_workers ''gpu'' = None \<and>
   Start two_workers ''gpu'' = (two_workers, Inl ErrUnknownWorker) \<and>
   snd (Start two_workers ''cpu'') =
     Inr [\<lparr>snap_id = ''cpu_pct'', snap_value = 10\<rparr>, \<lparr>snap_id = ''cpu_pct'', snap_value = 15\<rparr>] \<and>
   is_running (fst (Start two_workers ''cpu'')) ''cpu'' \<and>
   Start (fst (Start two_workers ''cpu'')) ''cpu'' =
     (fst (Start two_workers ''cpu''), Inl ErrWorkerAlreadyStarted)"
  using Start_errors [of two_workers "''gpu''"] Start_errors [of two_workers "''cpu''"]
    Start_errors [of "fst (Start two_workers ''cpu'')" "''cpu''"]
  by (simp add: two_workers_eq Start_def cpu_worker_def)

section \<open>Properties of the tracker\<close>

lemma sum_list_update_mset:
  "i < length xs \<Longrightarrow> xs ! i = x # rest \<Longrightarrow>
   sum_list (map mset (xs[i := rest])) + {#x#} = sum_list (map mset xs)"
proof (induction xs arbitrary: i)
  case Nil
  then show ?case by simp
next
  case (Cons a xs)
  then show ?case by (cases i) simp_all
qed

lemma fan_in_length: "fan_in sched streams = (out, left) \<Longrightarrow> length left = length streams"
proof (induction sched arbitrary: streams out left)
  case Nil
  then show ?case by simp
next
  case (Cons i sched)
  then show ?case
    by (fastforce split: if_splits list.splits prod.splits)
qed

lemma fan_in_conserves:
  "fan_in sched streams = (out, left) \<Longrightarrow>
   mset (map snd out) + sum_list (map mset left) = sum_list (map mset streams)"
proof (induction sched arbitrary: streams out left)
  case Nil
  then show ?case by simp
next
  case (Cons i sched)
  show ?case
  proof (cases "i < length streams")
    case False
    with Cons show ?thesis by simp
  next
    case True
    show ?thesis
    proof (cases "streams ! i")
      case Nil
      with True Cons show ?thesis by simp
    next
      case (Cons x rest)
      obtain out' where f: "fan_in sched (streams[i := rest]) = (out', left)" and o: "out = (i, x) # out'"
        using Cons.prems True Cons by (auto split: prod.splits)
      have "mset (map snd out') + sum_list (map mset left) = sum_list (map mset (streams[i := rest]))"
        using Cons.IH [OF f] .
      then show ?thesis
        using sum_list_update_mset [OF True Cons] by (simp add: o)
    qed
  qed
qed

lemma fan_in_order:
  "fan_in sched streams = (out, left) \<Longrightarrow> j < length streams \<Longrightarrow>
   map snd (filter (\<lambda>p. fst p = j) out) @ left ! j = streams ! j"
proof (induction sched arbitrary: streams out left)
  case Nil
  then show ?case by simp
next
  case (Cons i sched)
  show ?case
  proof (cases "i < length streams")
    case False
    with Cons show ?thesis by simp
  next
    case True
    show ?thesis
    proof (cases "streams ! i")
      case Nil
      with True Cons show ?thesis by simp
    next
      case (Cons x rest)
      obtain out' where f: "fan_in sched (streams[i := rest]) = (out', left)" and o: "out = (i, x) # out'"
        using Cons.prems True Cons by (auto split: prod.splits)
      have ih: "map snd (filter (\<lambda>p. fst p = j) out') @ left ! j = (streams[i := rest]) ! j"
        using Cons.IH [OF f] Cons.prems(2) by simp
      show ?thesis
      proof (cases "j = i")
        case True
        with ih Cons \<open>i < length streams\<close> show ?thesis by (simp add: o)
      next
        case False
        with ih show ?thesis by (simp add: o)
      qed
    qed
  qed
qed

lemma sum_list_update_length:
  "i < length xs \<Longrightarrow> xs ! i = x # rest \<Longrightarrow>
   Suc (sum_list (map length (xs[i := rest]))) = sum_list (map length xs)"
proof (induction xs arbitrary: i)
  case Nil
  then show ?case by simp
next
  case (Cons a xs)
  then show ?case by (cases i) simp_all
qed

text \<open>Whatever the streams are, some schedule drains them all.\<close>

lemma fan_in_can_drain: "\<exists>sched. drained (snd (fan_in sched streams))"
proof (induction "sum_list (map length streams)" arbitrary: streams rule: less_induct)
  case less
  show ?case
  proof (cases "drained streams")
    case True
    then have "drained (snd (fan_in [] streams))" by simp
    then show ?thesis by blast
  next
    case False
    then obtain i where i: "i < length streams" and ne: "streams ! i \<noteq> []"
      by (auto simp: drained_def list_all_length)
    then obtain x rest where xs: "streams ! i = x # rest"
      by (cases "streams ! i") auto
    have "sum_list (map length (streams[i := rest])) < sum_list (map length streams)"
      using sum_list_update_length [OF i xs] by simp
    from less [OF this] obtain sched where "drained (snd (fan_in sched (streams[i := rest])))"
      by blast
    then have "drained (snd (fan_in (i # sched) streams))"
      using i xs by (auto split: prod.splits)
    then show ?thesis by blast
  qed
qed

lemma drained_sum: "drained left \<Longrightarrow> sum_list (map mset left) = {#}"
  unfolding drained_def by (induction left) simp_all

lemma is_disabled_new_entry:
  "reg k = None \<Longrightarrow> \<not> Disabled v \<Longrightarrow> is_disabled (reg(k \<mapsto> v)) = is_disabled reg"
  by (auto simp: is_disabled_def fun_eq_iff)

lemma process_one_calls:
  assumes "process_one publish (reg, calls) s = (reg', calls')"
  shows "map call_snapshot calls' =
           map call_snapshot calls @ (if is_disabled reg (snap_id s) then [] else [s]) \<and>
         is_disabled reg' = is_disabled reg"
proof (cases "reg (snap_id s)")
  case None
  then have nd: "\<not> is_disabled reg (snap_id s)"
    by (simp add: is_disabled_def)
  show ?thesis
  proof (cases "publish (Register s)")
    case True
    with None assms have "reg' = reg(snap_id s \<mapsto> \<lparr>Registered = True, Disabled = False\<rparr>)"
      and "calls' = calls @ [Register s]"
      by (auto simp: process_one_def)
    with None nd show ?thesis by (simp add: is_disabled_new_entry)
  next
    case False
    with None assms have "reg' = reg(snap_id s \<mapsto> \<lparr>Registered = False, Disabled = False\<rparr>)"
      and "calls' = calls @ [Register s]"
      by (auto simp: process_one_def)
    with None nd show ?thesis by (simp add: is_disabled_new_entry)
  qed
next
  case (Some v)
  with assms show ?thesis
    by (auto simp: process_one_def is_disabled_def split: if_splits)
qed

lemma foldl_process_one:
  "foldl (process_one publish) (reg, calls) ms = (reg', calls') \<Longrightarrow>
   map call_snapshot calls' =
     map call_snapshot calls @ filter (\<lambda>s. \<not> is_disabled reg (snap_id s)) ms"
proof (induction ms arbitrary: reg calls)
  case Nil
  then show ?case by simp
next
  case (Cons m ms)
  obtain reg1 calls1 where p: "process_one publish (reg, calls) m = (reg1, calls1)"
    by (cases "process_one publish (reg, calls) m")
  from process_one_calls [OF p]
  have c1: "map call_snapshot calls1 = map call_snapshot calls @ (if is_disabled reg (snap_id m) then [] else [m])"
    and d: "is_disabled reg1 = is_disabled reg" by simp_all
  have "foldl (process_one publish) (reg1, calls1) ms = (reg', calls')"
    using Cons.prems p by simp
  from Cons.IH [OF this] show ?case
    by (simp add: c1 d)
qed

lemma set_sum_list_mset: "set_mset (sum_list (map mset xss)) = set (concat xss)"
  by (induction xss) simp_all

lemma fan_in_subset:
  assumes "fan_in sched streams = (out, left)"
  shows "set (map snd out) \<subseteq> set (concat streams)"
proof -
  have "mset (map snd out) \<subseteq># sum_list (map mset streams)"
    using fan_in_conserves [OF assms] by (metis mset_subset_eq_add_left)
  then have "set_mset (mset (map snd out)) \<subseteq> set_mset (sum_list (map mset streams))"
    by (rule set_mset_mono)
  then show ?thesis
    by (simp add: set_sum_list_mset)
qed

text \<open>
  When no snapshot of the streams belongs to a disabled sensor, everything that reaches
  the merge point is delivered to the publisher, in the same order.
\<close>

lemma Process_delivers_all:
  assumes "fan_in sched streams = (out, left)"
    and "\<forall>s \<in> set (concat streams). \<not> is_disabled reg (snap_id s)"
  shows "map call_snapshot (snd (Process publish reg sched streams)) = map snd out"
proof -
  obtain reg' calls' where
    p: "foldl (process_one publish) (reg, []) (map snd out) = (reg', calls')"
    by (cases "foldl (process_one publish) (reg, []) (map snd out)")
  have "filter (\<lambda>s. \<not> is_disabled reg (snap_id s)) (map snd out) = map snd out"
    using fan_in_subset [OF assms(1)] assms(2) by (intro filter_True) blast
  then show ?thesis
    using foldl_process_one [OF p] by (simp add: Process_def assms(1) p)
qed

text \<open>
  The end-to-end scenario of the specification: the battery worker emits one snapshot, the
  cpu worker two. Two schedules merge them in two different orders across the workers
  (the order within the cpu worker is the same): the order across workers is the
  schedule's. With an empty registry and a publisher that succeeds, the calls are two
  registrations and one update, and both sensors end registered and not disabled.
\<close>

lemma fan_in_101:
  "fan_in [1, 0, 1] [battery_stream, cpu_stream] =
     ([(1, \<lparr>snap_id = ''cpu_pct'', snap_value = 10\<rparr>),
       (0, \<lparr>snap_id = ''battery_level'', snap_value = 42\<rparr>),
       (1, \<lparr>snap_id = ''cpu_pct'', snap_value = 15\<rparr>)], [[], []])"
  by (simp add: battery_stream_def cpu_stream_def)

lemma fan_in_011:
  "fan_in [0, 1, 1] [battery_stream, cpu_stream] =
     ([(0, \<lparr>snap_id = ''battery_level'', snap_value = 42\<rparr>),
       (1, \<lparr>snap_id = ''cpu_pct'', snap_value = 10\<rparr>),
       (1, \<lparr>snap_id = ''cpu_pct'', snap_value = 15\<rparr>)], [[], []])"
  by (simp add: battery_stream_def cpu_stream_def)

lemma end_to_end:
  "snd (Process publish_ok Map.empty [0, 1, 1] [battery_stream, cpu_stream]) =
     [Register \<lparr>snap_id = ''battery_level'', snap_value = 42\<rparr>,
      Register \<lparr>snap_id = ''cpu_pct'', snap_value = 10\<rparr>,
      UpdateState \<lparr>snap_id = ''cpu_pct'', snap_value = 15\<rparr>] \<and>
   fst (Process publish_ok Map.empty [0, 1, 1] [battery_stream, cpu_stream]) =
     [''battery_level'' \<mapsto> \<lparr>Registered = True, Disabled = False\<rparr>,
      ''cpu_pct'' \<mapsto> \<lparr>Registered = True, Disabled = False\<rparr>]"
  by (simp add: Process_def process_one_def publish_ok_def battery_stream_def cpu_stream_def)

text \<open>
  C8, as amended. Let the fan-in of the streams under a schedule give the sequence
  \<open>out\<close> at the merge point and leave \<open>left\<close> of the streams. Then, for each worker, the
  snapshots of \<open>out\<close> that came from it, in their order in \<open>out\<close>, followed by what is left
  of its stream, are the sequence it emits: its emission order is kept, nothing of it is
  lost or duplicated. When every stream is drained, \<open>out\<close> is the multiset union of the
  streams. The snapshots that \<open>Process\<close> delivers to the publisher are those of \<open>out\<close>
  whose id is not disabled in the registry, in the order of \<open>out\<close>; so they are all of
  \<open>out\<close> when no id is disabled.
\<close>

theorem Process_merge:
  assumes "fan_in sched streams = (out, left)"
  shows "(\<forall>j<length streams. map snd (filter (\<lambda>p. fst p = j) out) @ left ! j = streams ! j) \<and>
         (drained left \<longrightarrow> mset (map snd out) = sum_list (map mset streams)) \<and>
         map call_snapshot (snd (Process publish reg sched streams)) =
           filter (\<lambda>s. \<not> is_disabled reg (snap_id s)) (map snd out)"
proof (intro conjI allI impI)
  fix j assume "j < length streams"
  then show "map snd (filter (\<lambda>p. fst p = j) out) @ left ! j = streams ! j"
    using fan_in_order [OF assms] by simp
next
  assume "drained left"
  then show "mset (map snd out) = sum_list (map mset streams)"
    using fan_in_conserves [OF assms] by (simp add: drained_sum)
next
  obtain reg' calls' where
    p: "foldl (process_one publish) (reg, []) (map snd out) = (reg', calls')"
    by (cases "foldl (process_one publish) (reg, []) (map snd out)")
  show "map call_snapshot (snd (Process publish reg sched streams)) =
          filter (\<lambda>s. \<not> is_disabled reg (snap_id s)) (map snd out)"
    using foldl_process_one [OF p] by (simp add: Process_def assms p)
qed


theorem Process_merge_witness:
  "fan_in [1, 0, 1] [battery_stream, cpu_stream] =
     ([(1, \<lparr>snap_id = ''cpu_pct'', snap_value = 10\<rparr>),
       (0, \<lparr>snap_id = ''battery_level'', snap_value = 42\<rparr>),
       (1, \<lparr>snap_id = ''cpu_pct'', snap_value = 15\<rparr>)], [[], []]) \<and>
   drained [[], [] :: snapshot list] \<and>
   map snd (filter (\<lambda>p. fst p = 0) (fst (fan_in [1, 0, 1] [battery_stream, cpu_stream]))) =
     battery_stream \<and>
   map snd (filter (\<lambda>p. fst p = 1) (fst (fan_in [1, 0, 1] [battery_stream, cpu_stream]))) =
     cpu_stream \<and>
   mset [\<lparr>snap_id = ''cpu_pct'', snap_value = 10\<rparr>, \<lparr>snap_id = ''battery_level'', snap_value = 42\<rparr>,
         \<lparr>snap_id = ''cpu_pct'', snap_value = 15\<rparr>] = mset battery_stream + mset cpu_stream \<and>
   map call_snapshot (snd (Process publish_ok Map.empty [1, 0, 1] [battery_stream, cpu_stream])) =
     [\<lparr>snap_id = ''cpu_pct'', snap_value = 10\<rparr>, \<lparr>snap_id = ''battery_level'', snap_value = 42\<rparr>,
      \<lparr>snap_id = ''cpu_pct'', snap_value = 15\<rparr>] \<and>
   map call_snapshot (snd (Process publish_ok cpu_disabled [1, 0, 1] [battery_stream, cpu_stream])) =
     [\<lparr>snap_id = ''battery_level'', snap_value = 42\<rparr>]"
  using Process_merge [OF fan_in_101, of publish_ok Map.empty]
    Process_merge [OF fan_in_101, of publish_ok cpu_disabled]
  by (simp add: drained_def is_disabled_def cpu_disabled_def battery_stream_def cpu_stream_def)

text \<open>
  C8, as stated, fails when a sensor is disabled: one worker emits the two snapshots of
  \<open>cpu_pct\<close>, its stream is drained, and nothing is delivered to the publisher.
\<close>

theorem Process_drops_disabled:
  "drained (snd (fan_in [0, 0] [cpu_stream])) \<and>
   snd (Process publish_ok cpu_disabled [0, 0] [cpu_stream]) = [] \<and>
   mset (map call_snapshot (snd (Process publish_ok cpu_disabled [0, 0] [cpu_stream]))) \<noteq>
     sum_list (map mset [cpu_stream])"
  by (simp add: Process_def process_one_def cpu_disabled_def cpu_stream_def drained_def)

section \<open>Properties of the generic sensor\<close>

text \<open>
  The identifier of a sensor is the snake case of its name, so sensors of the same type
  have the same identifier, whatever their other fields hold.
\<close>

lemma ID_snake_of_Name: "ID snake str l = snake (Name str l)"
  by (simp add: ID_def Name_def)

lemma ID_screen_lock:
  "ID example_ToSnake example_type_String (newScreenlockEvent 0 True) = ''screen_lock'' \<and>
   ID example_ToSnake example_type_String (newScreenlockEvent 0 False) = ''screen_lock''"
  by (simp add: ID_def newScreenlockEvent_def example_type_String_def example_ToSnake_def)

section \<open>Properties of the websocket URL\<close>

text \<open>
  C10, as amended. With \<open>/api/websocket\<close> for \<open>hass.WebsocketPath\<close>, the function of the
  package agent and the one of the package config return the same URL for every host
  that parses with the scheme \<open>https\<close> or \<open>http\<close> (the first one with no error). For a
  host that does not parse, both return the empty string, the first one with the error
  of the parser wrapped beside it. For a host that parses with any other scheme, the
  function of the package config returns the empty string, and the one of the package
  agent returns a URL: with the scheme \<open>wss\<close> if that is the scheme of the host, and
  \<open>ws\<close> otherwise.
\<close>

theorem generateWebsocketURL_agreement:
  "(\<forall>u. url_Parse lib host = Inr u \<and> (Scheme u = ''https'' \<or> Scheme u = ''http'') \<longrightarrow>
      generateWebsocketURL lib websocketPath host = (config_generateWebsocketURL lib host, None)) \<and>
   (\<forall>err. url_Parse lib host = Inl err \<longrightarrow>
      generateWebsocketURL lib websocketPath host =
        ('''', Some (Wrapped ''unable to generate websocket URL'' err)) \<and>
      config_generateWebsocketURL lib host = '''') \<and>
   (\<forall>u. url_Parse lib host = Inr u \<and> Scheme u \<noteq> ''https'' \<and> Scheme u \<noteq> ''http'' \<longrightarrow>
      generateWebsocketURL lib websocketPath host =
        (url_String lib (url_JoinPath lib
           (if Scheme u = ''wss'' then u else u\<lparr>Scheme := ''ws''\<rparr>) [websocketPath]), None) \<and>
      config_generateWebsocketURL lib host = '''')"
  by (auto simp: generateWebsocketURL_def config_generateWebsocketURL_def Let_def)

theorem generateWebsocketURL_agreement_witness:
  "generateWebsocketURL example_lib websocketPath ''https://hass.local:8123'' =
     (''wss://hass.local:8123/api/websocket'', None) \<and>
   config_generateWebsocketURL example_lib ''https://hass.local:8123'' =
     ''wss://hass.local:8123/api/websocket'' \<and>
   generateWebsocketURL example_lib websocketPath ''http://hass.local:8123'' =
     (config_generateWebsocketURL example_lib ''http://hass.local:8123'', None) \<and>
   generateWebsocketURL example_lib websocketPath ''://hass.local'' =
     ('''', Some (Wrapped ''unable to generate websocket URL'' (ParseError ''missing protocol scheme''))) \<and>
   config_generateWebsocketURL example_lib ''://hass.local'' = '''' \<and>
   generateWebsocketURL example_lib websocketPath ''hass.local'' =
     (''ws://hass.local/api/websocket'', None) \<and>
   config_generateWebsocketURL example_lib ''hass.local'' = ''''"
  using generateWebsocketURL_agreement [of example_lib "''https://hass.local:8123''"]
    generateWebsocketURL_agreement [of example_lib "''http://hass.local:8123''"]
    generateWebsocketURL_agreement [of example_lib "''://hass.local''"]
    generateWebsocketURL_agreement [of example_lib "''hass.local''"]
  by (simp add: example_lib_def example_URL_Parse_def example_URL_JoinPath_def
      example_URL_String_def websocketPath_def config_generateWebsocketURL_def)

text \<open>
  C10, as stated, fails on a host whose scheme is \<open>wss\<close>: the function of the package
  agent returns the websocket URL, the one of the package config the empty string.
\<close>

theorem generateWebsocketURL_differ_on_wss:
  "fst (generateWebsocketURL example_lib websocketPath ''wss://hass.local:8123'') =
     ''wss://hass.local:8123/api/websocket'' \<and>
   config_generateWebsocketURL example_lib ''wss://hass.local:8123'' = '''' \<and>
   fst (generateWebsocketURL example_lib websocketPath ''wss://hass.local:8123'') \<noteq>
     config_generateWebsocketURL example_lib ''wss://hass.local:8123''"
  by (simp add: generateWebsocketURL_def config_generateWebsocketURL_def example_lib_def
      example_URL_Parse_def example_URL_JoinPath_def example_URL_String_def websocketPath_def)

text \<open>
  The method of \<open>agentConfig\<close> stores what the function of the package agent returns,
  except for a host of scheme \<open>wss\<close>, which it turns into \<open>ws\<close>, and for a host that does
  not parse, where it dereferences \<open>nil\<close>.
\<close>

lemma agentConfig_generateWebsocketURL_eq:
  "url_Parse lib (prefs ''Host'') = Inr u \<Longrightarrow> Scheme u \<noteq> ''wss'' \<Longrightarrow>
   agentConfig_generateWebsocketURL lib prefs =
     Inr (prefs(''WebSocketURL'' := fst (generateWebsocketURL lib websocketPath (prefs ''Host''))))"
  by (simp add: agentConfig_generateWebsocketURL_def generateWebsocketURL_def Let_def)

lemma agentConfig_generateWebsocketURL_nil:
  "url_Parse lib (prefs ''Host'') = Inl err \<Longrightarrow>
   agentConfig_generateWebsocketURL lib prefs = Inl NilPointerDereference"
  by (simp add: agentConfig_generateWebsocketURL_def)

end
